theory Spec2Isabelle
  imports Complex_Main
begin

section \<open>Retrieval: \<open>RAGManager._build_context\<close> (\<open>modules/vector_db/rag_manager.py\<close>)\<close>

text \<open>
  A search hit as \<open>VectorDBManager.search\<close> builds it: every hit carries the keys
  \<open>document\<close>, \<open>metadata\<close>, \<open>distance\<close> and \<open>id\<close>, so the lookup
  \<open>doc['document']\<close> of \<open>_build_context\<close> cannot miss. The metadata mapping plays no
  part in context assembly and is left out; the distance is kept as a number.
\<close>

record search_hit =
  document :: string
  distance :: real
  hit_id :: string

text \<open>
  The loop of \<open>_build_context\<close>, with its two locals \<open>context_parts\<close> and
  \<open>total_length\<close> as accumulators. \<open>break\<close> ends the loop with the parts collected so
  far: the remaining hits are not looked at.
\<close>

fun build_context_loop :: "nat \<Rightarrow> search_hit list \<Rightarrow> string list \<Rightarrow> nat \<Rightarrow> string list" where
  "build_context_loop max_context_length [] context_parts total_length = context_parts"
| "build_context_loop max_context_length (doc # docs) context_parts total_length =
     (let doc_text = document doc;
          doc_length = length doc_text
      in if total_length + doc_length > max_context_length
         then context_parts
         else build_context_loop max_context_length docs
                (context_parts @ [doc_text]) (total_length + doc_length))"

text \<open>Python's \<open>sep.join(parts)\<close>.\<close>

fun join :: "string \<Rightarrow> string list \<Rightarrow> string" where
  "join sep [] = []"
| "join sep [p] = p"
| "join sep (p # q # ps) = p @ sep @ join sep (q # ps)"

text \<open>The separator \<open>"\n\n"\<close>: two line feeds.\<close>

definition blank_line :: string where
  "blank_line = [CHR 0x0A, CHR 0x0A]"

definition context_parts :: "nat \<Rightarrow> search_hit list \<Rightarrow> string list" where
  "context_parts max_context_length docs = build_context_loop max_context_length docs [] 0"

definition build_context :: "nat \<Rightarrow> search_hit list \<Rightarrow> string" where
  "build_context max_context_length docs = join blank_line (context_parts max_context_length docs)"


section \<open>Python values and operations used by the code\<close>

text \<open>
  Strings are lists of characters and \<open>len\<close> is \<open>length\<close>: one \<open>char\<close> stands for one
  character of the Python string, so the model covers text whose code points are below
  256 (the seven keywords are ASCII).

  The complexity score and its threshold are modelled by exact reals. The scores the code
  computes are \<open>k / 5.0\<close> for an integer \<open>0 \<le> k \<le> 8\<close>; IEEE division is correctly rounded,
  so such a score compares to \<open>1.0\<close> and to the literal \<open>j / 5\<close> as the real quotient does:
  a threshold written \<open>0.2\<close> in the configuration is the real \<open>1 / 5\<close> here.

  The numbers of the preference update are Python's own: unbounded integers and IEEE
  doubles with their rounding, as defined below.
\<close>

text \<open>\<open>xs[i:]\<close>: a negative start counts from the end and is clamped at the front.\<close>

definition slice_from :: "int \<Rightarrow> 'a list \<Rightarrow> 'a list" where
  "slice_from i xs =
     (if i < 0 then drop (nat (int (length xs) + i)) xs else drop (nat i) xs)"

text \<open>
  \<open>str.lower\<close> on code points below 256: \<open>A\<close>..\<open>Z\<close> and the capital letters 192..222
  (but not the multiplication sign 215) move up by 32, everything else stays.
\<close>

definition lower_char :: "char \<Rightarrow> char" where
  "lower_char c =
     (let n = (of_char c :: nat)
      in if (65 \<le> n \<and> n \<le> 90) \<or> (192 \<le> n \<and> n \<le> 222 \<and> n \<noteq> 215)
         then char_of (n + 32) else c)"

definition lower :: "string \<Rightarrow> string" where
  "lower s = map lower_char s"

text \<open>\<open>s.startswith(k)\<close> and \<open>k in s\<close> (substring test).\<close>

fun startswith :: "string \<Rightarrow> string \<Rightarrow> bool" where
  "startswith s [] = True"
| "startswith [] (k # ks) = False"
| "startswith (c # cs) (k # ks) = (c = k \<and> startswith cs ks)"

fun contains :: "string \<Rightarrow> string \<Rightarrow> bool" where
  "contains k [] = (k = [])"
| "contains k (c # cs) = (startswith (c # cs) k \<or> contains k cs)"

text \<open>
  \<open>str.strip()\<close>: white space is removed at both ends. Below 256 the white space
  characters are 9..13, 28..32, 133 and 160.
\<close>

definition is_space :: "char \<Rightarrow> bool" where
  "is_space c =
     (let n = (of_char c :: nat)
      in (9 \<le> n \<and> n \<le> 13) \<or> (28 \<le> n \<and> n \<le> 32) \<or> n = 133 \<or> n = 160)"

definition strip :: "string \<Rightarrow> string" where
  "strip s = rev (dropWhile is_space (rev (dropWhile is_space s)))"

text \<open>
  Truthiness of an \<open>Optional[str]\<close>: \<open>None\<close> and the empty string are false.
  \<open>py_or r d\<close> is \<open>r or d\<close>.
\<close>

definition truthy :: "string option \<Rightarrow> bool" where
  "truthy r = (case r of None \<Rightarrow> False | Some s \<Rightarrow> s \<noteq> [])"

definition py_or :: "string option \<Rightarrow> string \<Rightarrow> string" where
  "py_or r d = (case r of None \<Rightarrow> d | Some s \<Rightarrow> if s = [] then d else s)"

text \<open>
  A dict with string keys is an association list in insertion order: \<open>d.get(k)\<close> is
  \<open>map_of d k\<close>, and \<open>d[k] = v\<close> replaces the value in place or appends the key.
\<close>

fun dict_set :: "(string \<times> 'v) list \<Rightarrow> string \<Rightarrow> 'v \<Rightarrow> (string \<times> 'v) list" where
  "dict_set [] k v = [(k, v)]"
| "dict_set ((k', v') # d) k v = (if k' = k then (k, v) # d else (k', v') # dict_set d k v)"

datatype py_error = KeyError string | OverflowError | ValueError

subsection \<open>Numbers: \<open>int\<close> and \<open>float\<close>\<close>

text \<open>
  A float is an IEEE double: a finite value (a rational that a double can hold), an
  infinity or not-a-number. The sign of zero is not kept; no operation modelled here
  depends on it.
\<close>

datatype pyfloat = Fin rat | PosInf | NegInf | NaN

datatype pynum = PyInt int | PyFloat pyfloat

text \<open>\<open>2 ** e\<close> for an integer exponent, and \<open>int.bit_length\<close>.\<close>

definition pow2 :: "int \<Rightarrow> rat" where
  "pow2 e = (if 0 \<le> e then 2 ^ nat e else 1 / 2 ^ nat (- e))"

function bit_length :: "int \<Rightarrow> int" where
  "bit_length n = (if n \<le> 0 then 0 else 1 + bit_length (n div 2))"
  by pat_completeness auto
termination
  by (relation "measure nat") auto

declare bit_length.simps [simp del]

text \<open>For \<open>x > 0\<close>, the exponent \<open>e\<close> with \<open>2 ** e \<le> x < 2 ** (e + 1)\<close>.\<close>

definition floor_log2 :: "rat \<Rightarrow> int" where
  "floor_log2 x =
     (let (p, q) = quotient_of x;
          e = bit_length p - bit_length q
      in if pow2 e \<le> x then e else e - 1)"

text \<open>Rounding to the nearest integer, ties to the even one.\<close>

definition round_half_even :: "rat \<Rightarrow> int" where
  "round_half_even y =
     (let f = \<lfloor>y\<rfloor>; d = y - of_int f
      in if d < 1 / 2 then f else if d > 1 / 2 then f + 1 else if even f then f else f + 1)"

text \<open>
  The double nearest to an exact value, ties to even, before the range is looked at: 53
  significant bits, and the fixed spacing \<open>2 ** -1074\<close> of the subnormal doubles at the
  bottom. \<open>to_double\<close> is the result of an operation whose exact value is \<open>x\<close>: values
  that round to \<open>2 ** 1024\<close> or beyond overflow to an infinity.
\<close>

definition round_double :: "rat \<Rightarrow> rat" where
  "round_double x =
     (if x = 0 then 0
      else let e = floor_log2 \<bar>x\<bar>; q = pow2 (max (e - 52) (- 1074))
           in of_int (round_half_even (x / q)) * q)"

definition to_double :: "rat \<Rightarrow> pyfloat" where
  "to_double x =
     (let r = round_double x
      in if 2 ^ 1024 \<le> r then PosInf else if r \<le> - (2 ^ 1024) then NegInf else Fin r)"

text \<open>A float literal such as \<open>0.1\<close>: the double nearest to the decimal written.\<close>

definition float_literal :: "rat \<Rightarrow> pynum" where
  "float_literal x = PyFloat (to_double x)"

text \<open>Addition, subtraction and multiplication of doubles.\<close>

fun fneg :: "pyfloat \<Rightarrow> pyfloat" where
  "fneg (Fin a) = Fin (- a)"
| "fneg PosInf = NegInf"
| "fneg NegInf = PosInf"
| "fneg NaN = NaN"

fun fadd :: "pyfloat \<Rightarrow> pyfloat \<Rightarrow> pyfloat" where
  "fadd (Fin a) (Fin b) = to_double (a + b)"
| "fadd NaN y = NaN"
| "fadd x NaN = NaN"
| "fadd PosInf NegInf = NaN"
| "fadd NegInf PosInf = NaN"
| "fadd PosInf y = PosInf"
| "fadd NegInf y = NegInf"
| "fadd (Fin a) y = y"

definition fsub :: "pyfloat \<Rightarrow> pyfloat \<Rightarrow> pyfloat" where
  "fsub x y = fadd x (fneg y)"

fun fsign :: "pyfloat \<Rightarrow> int" where
  "fsign (Fin a) = (if a < 0 then - 1 else if a = 0 then 0 else 1)"
| "fsign PosInf = 1"
| "fsign NegInf = - 1"
| "fsign NaN = 0"

fun fmul :: "pyfloat \<Rightarrow> pyfloat \<Rightarrow> pyfloat" where
  "fmul (Fin a) (Fin b) = to_double (a * b)"
| "fmul NaN y = NaN"
| "fmul x NaN = NaN"
| "fmul x y = (let s = fsign x * fsign y
               in if s = 0 then NaN else if 0 < s then PosInf else NegInf)"

text \<open>
  The conversion of an operand to float in mixed arithmetic: an \<open>int\<close> is rounded to
  the nearest double, and one too large for a double raises \<open>OverflowError\<close>.
\<close>

definition to_float :: "pynum \<Rightarrow> py_error + pyfloat" where
  "to_float x =
     (case x of
        PyFloat f \<Rightarrow> Inr f
      | PyInt i \<Rightarrow>
          (case to_double (of_int i) of Fin r \<Rightarrow> Inr (Fin r) | _ \<Rightarrow> Inl OverflowError))"

text \<open>
  \<open>x + y\<close>, \<open>x - y\<close> and \<open>x * y\<close>: exact on two \<open>int\<close>s, in doubles as soon as one
  operand is a float.
\<close>

definition py_arith ::
  "(int \<Rightarrow> int \<Rightarrow> int) \<Rightarrow> (pyfloat \<Rightarrow> pyfloat \<Rightarrow> pyfloat) \<Rightarrow>
   pynum \<Rightarrow> pynum \<Rightarrow> py_error + pynum" where
  "py_arith int_op float_op x y =
     (case (x, y) of
        (PyInt a, PyInt b) \<Rightarrow> Inr (PyInt (int_op a b))
      | _ \<Rightarrow>
          (case to_float x of
             Inl e \<Rightarrow> Inl e
           | Inr a \<Rightarrow>
               (case to_float y of
                  Inl e \<Rightarrow> Inl e
                | Inr b \<Rightarrow> Inr (PyFloat (float_op a b)))))"

definition py_add :: "pynum \<Rightarrow> pynum \<Rightarrow> py_error + pynum" where
  "py_add = py_arith (+) fadd"

definition py_sub :: "pynum \<Rightarrow> pynum \<Rightarrow> py_error + pynum" where
  "py_sub = py_arith (-) fsub"

definition py_mul :: "pynum \<Rightarrow> pynum \<Rightarrow> py_error + pynum" where
  "py_mul = py_arith (*) fmul"

text \<open>
  \<open>int(x)\<close>: a finite float is truncated toward zero, an infinity raises
  \<open>OverflowError\<close>, not-a-number raises \<open>ValueError\<close>.
\<close>

definition py_int :: "pynum \<Rightarrow> py_error + int" where
  "py_int x =
     (case x of
        PyInt i \<Rightarrow> Inr i
      | PyFloat (Fin r) \<Rightarrow> Inr (if 0 \<le> r then \<lfloor>r\<rfloor> else \<lceil>r\<rceil>)
      | PyFloat NaN \<Rightarrow> Inl ValueError
      | PyFloat _ \<Rightarrow> Inl OverflowError)"

section \<open>Conversation memory: \<open>Memory\<close> (\<open>modules/learning/memory.py\<close>)\<close>

text \<open>
  The metadata of a turn is a dict; the only key the code reads is
  \<open>preferred_voice_rate\<close>, a number, so values are numbers here. Preferences are
  numbers as well.
\<close>

type_synonym metadata = "(string \<times> pynum) list"

record conversation =
  timestamp :: string
  user :: string
  assistant :: string
  conv_metadata :: metadata

text \<open>
  The in-memory state of a \<open>Memory\<close> object that the operations below read or write.
  The files it is saved to are not modelled: what a save does to the object itself is.
\<close>

record memory =
  max_history :: int
  conversations :: "conversation list"
  user_preferences :: "string \<rightharpoonup> pynum"

text \<open>
  \<open>_save_conversations\<close>. The whole body is inside \<open>try\<close>: when \<open>os.makedirs\<close> raises
  (\<open>makedirs_ok\<close> false), the exception is logged and the log is left as it is. Otherwise
  the log is cut to its last \<open>max_history\<close> entries when it is longer; a failure of the
  write that follows does not undo that.
\<close>

definition save_conversations :: "bool \<Rightarrow> memory \<Rightarrow> memory" where
  "save_conversations makedirs_ok self =
     (if \<not> makedirs_ok then self
      else if int (length (conversations self)) > max_history self
      then self\<lparr>conversations := slice_from (- max_history self) (conversations self)\<rparr>
      else self)"

text \<open>\<open>add_conversation\<close>; the time stamp \<open>datetime.now().isoformat()\<close> is an input.\<close>

definition add_conversation ::
  "bool \<Rightarrow> string \<Rightarrow> memory \<Rightarrow> string \<Rightarrow> string \<Rightarrow> metadata option \<Rightarrow> memory" where
  "add_conversation makedirs_ok now self user_input assistant_response md =
     (let conversation = \<lparr>timestamp = now, user = user_input, assistant = assistant_response,
                           conv_metadata = (case md of None \<Rightarrow> [] | Some m \<Rightarrow> m)\<rparr>
      in save_conversations makedirs_ok
           (self\<lparr>conversations := conversations self @ [conversation]\<rparr>))"

text \<open>One call of \<open>add_conversation\<close> with what the environment did, and a run of calls.\<close>

record append_call =
  call_makedirs_ok :: bool
  call_now :: string
  call_user :: string
  call_assistant :: string
  call_metadata :: "metadata option"

definition add_call :: "memory \<Rightarrow> append_call \<Rightarrow> memory" where
  "add_call self c =
     add_conversation (call_makedirs_ok c) (call_now c) self (call_user c) (call_assistant c)
       (call_metadata c)"

definition add_calls :: "memory \<Rightarrow> append_call list \<Rightarrow> memory" where
  "add_calls self cs = foldl add_call self cs"

text \<open>The turn a call appends.\<close>

definition turn_of :: "append_call \<Rightarrow> conversation" where
  "turn_of c = \<lparr>timestamp = call_now c, user = call_user c, assistant = call_assistant c,
                conv_metadata = (case call_metadata c of None \<Rightarrow> [] | Some m \<Rightarrow> m)\<rparr>"

text \<open>\<open>get_recent_conversations\<close>: \<open>self.conversations[-limit:]\<close>.\<close>

definition get_recent_conversations :: "memory \<Rightarrow> int \<Rightarrow> conversation list" where
  "get_recent_conversations self limit = slice_from (- limit) (conversations self)"

text \<open>\<open>set_preference\<close> and \<open>get_preference\<close>.\<close>

definition set_preference :: "memory \<Rightarrow> string \<Rightarrow> pynum \<Rightarrow> memory" where
  "set_preference self key v = self\<lparr>user_preferences := (user_preferences self)(key \<mapsto> v)\<rparr>"

definition get_preference :: "memory \<Rightarrow> string \<Rightarrow> pynum \<Rightarrow> pynum" where
  "get_preference self key dflt =
     (case user_preferences self key of None \<Rightarrow> dflt | Some v \<Rightarrow> v)"

section \<open>\<open>LearningManager._update_preferences\<close> (\<open>modules/learning/learning_manager.py\<close>)\<close>

text \<open>
  \<open>not metadata\<close> holds for \<open>None\<close> and for the empty dict. The expression
  \<open>current * (1 - self.learning_rate) + new_rate * self.learning_rate\<close> is evaluated
  operation by operation, left to right, an exception of one of them ending the method;
  the new value is stored as \<open>int(updated)\<close>.
\<close>

definition update_preferences ::
  "pynum \<Rightarrow> memory \<Rightarrow> string \<Rightarrow> metadata option \<Rightarrow> py_error + memory" where
  "update_preferences learning_rate mem user_input md =
     (case md of
        None \<Rightarrow> Inr mem
      | Some m \<Rightarrow>
          if m = [] then Inr mem
          else (case map_of m ''preferred_voice_rate'' of
                  None \<Rightarrow> Inr mem
                | Some new_rate \<Rightarrow>
                    let current = get_preference mem ''voice_rate'' (PyInt 175)
                    in (case py_sub (PyInt 1) learning_rate of
                          Inl e \<Rightarrow> Inl e
                        | Inr keep \<Rightarrow>
                    (case py_mul current keep of
                          Inl e \<Rightarrow> Inl e
                        | Inr old_part \<Rightarrow>
                    (case py_mul new_rate learning_rate of
                          Inl e \<Rightarrow> Inl e
                        | Inr new_part \<Rightarrow>
                    (case py_add old_part new_part of
                          Inl e \<Rightarrow> Inl e
                        | Inr updated \<Rightarrow>
                    (case py_int updated of
                          Inl e \<Rightarrow> Inl e
                        | Inr i \<Rightarrow> Inr (set_preference mem ''voice_rate'' (PyInt i)))))))))"


section \<open>Backends: \<open>LocalLLM\<close> and \<open>CloudLLM\<close> (\<open>modules/ai\<close>)\<close>

text \<open>A chat message is a dict with the keys \<open>role\<close> and \<open>content\<close>.\<close>

type_synonym message = "(string \<times> string) list"

text \<open>
  What the local server answers is an input. \<open>tags_ok\<close>: the probe \<open>GET /api/tags\<close>
  answered with status 200. \<open>post_generate\<close> and \<open>post_chat\<close>: the text of the reply
  when the request answered with status 200, \<open>None\<close> for any other status or an
  exception (both methods catch everything).
\<close>

record LocalLLM =
  local_enabled :: bool
  tags_ok :: bool
  post_generate :: "string \<Rightarrow> string option \<Rightarrow> string option"
  post_chat :: "message list \<Rightarrow> string option"

definition local_is_available :: "LocalLLM \<Rightarrow> bool" where
  "local_is_available self = tags_ok self"

definition local_generate :: "LocalLLM \<Rightarrow> string \<Rightarrow> string option \<Rightarrow> string option" where
  "local_generate self prompt system =
     (if \<not> local_enabled self then None else post_generate self prompt system)"

definition local_chat :: "LocalLLM \<Rightarrow> message list \<Rightarrow> string option" where
  "local_chat self messages =
     (if \<not> local_enabled self then None else post_chat self messages)"

text \<open>
  \<open>has_client\<close>: \<open>self.client is not None\<close>. The four remaining fields are what the
  provider's client returns, \<open>None\<close> when the call raises (caught in \<open>generate\<close> and
  \<open>chat\<close>) or the reply carries no text.
\<close>

record CloudLLM =
  cloud_enabled :: bool
  has_client :: bool
  provider :: string
  openai_generate :: "string \<Rightarrow> string option \<Rightarrow> string option"
  anthropic_generate :: "string \<Rightarrow> string option \<Rightarrow> string option"
  openai_chat :: "message list \<Rightarrow> string option"
  anthropic_chat :: "message list \<Rightarrow> string option"

definition cloud_is_available :: "CloudLLM \<Rightarrow> bool" where
  "cloud_is_available self = (cloud_enabled self \<and> has_client self)"

definition cloud_generate :: "CloudLLM \<Rightarrow> string \<Rightarrow> string option \<Rightarrow> string option" where
  "cloud_generate self prompt system =
     (if \<not> cloud_is_available self then None
      else if provider self = ''openai'' \<or> provider self = ''openrouter''
      then openai_generate self prompt system
      else if provider self = ''anthropic'' then anthropic_generate self prompt system
      else None)"

definition cloud_chat :: "CloudLLM \<Rightarrow> message list \<Rightarrow> string option" where
  "cloud_chat self messages =
     (if \<not> cloud_is_available self then None
      else if provider self = ''openai'' \<or> provider self = ''openrouter''
      then openai_chat self messages
      else if provider self = ''anthropic'' then anthropic_chat self messages
      else None)"

section \<open>The orchestrator: \<open>AIManager\<close> (\<open>modules/ai/ai_manager.py\<close>)\<close>

text \<open>\<open>os.environ\<close> as its items, and \<open>os.getenv\<close>.\<close>

type_synonym environ = "(string \<times> string) list"

definition getenv :: "environ \<Rightarrow> string \<Rightarrow> string option" where
  "getenv env k = map_of env k"

record AIManager =
  mode :: string
  decision_threshold :: real
  personal_injection_enabled :: bool
  personal_env_keys :: "string list"
  personal_directive :: string
  local_llm :: LocalLLM
  cloud_llm :: CloudLLM

text \<open>
  The mode \<open>__init__\<close> stores: \<open>os.getenv('AI_MODE', config.get('mode', 'hybrid'))\<close>,
  with \<open>config_mode\<close> the entry of the configuration, if any.
\<close>

definition init_mode :: "environ \<Rightarrow> string option \<Rightarrow> string" where
  "init_mode env config_mode =
     (case getenv env ''AI_MODE'' of
        Some m \<Rightarrow> m
      | None \<Rightarrow> (case config_mode of Some m \<Rightarrow> m | None \<Rightarrow> ''hybrid''))"

text \<open>The three fixed replies.\<close>

definition trouble_processing :: string where
  "trouble_processing = ''I'm having trouble processing that request.''"

definition trouble_connecting :: string where
  "trouble_connecting = ''I'm having trouble connecting to my cloud services.''"

definition unable_to_process :: string where
  "unable_to_process = ''I'm currently unable to process your request.''"

text \<open>\<open>_build_system_prompt\<close>.\<close>

definition collect_keys :: "environ \<Rightarrow> string list \<Rightarrow> (string \<times> string) list" where
  "collect_keys env ks =
     foldl (\<lambda>collected k.
              case getenv env k of
                None \<Rightarrow> collected
              | Some v \<Rightarrow> if v \<noteq> [] then dict_set collected k v else collected) [] ks"

definition collect_prefixed :: "environ \<Rightarrow> (string \<times> string) list" where
  "collect_prefixed env =
     foldl (\<lambda>collected (k, v).
              if startswith k ''PHENOM_'' \<and> v \<noteq> [] then dict_set collected k v
              else collected) [] env"

definition build_system_prompt :: "AIManager \<Rightarrow> environ \<Rightarrow> string option" where
  "build_system_prompt self env =
     (if \<not> personal_injection_enabled self then None
      else let collected = (if personal_env_keys self \<noteq> []
                            then collect_keys env (personal_env_keys self)
                            else collect_prefixed env)
           in if collected = [] then None
              else Some (join [CHR 0x0A]
                          ([strip (personal_directive self), []] @
                           map (\<lambda>(k, v). k @ '': '' @ v) collected)))"

text \<open>\<open>_should_use_cloud\<close>, with its locals as definitions of their own.\<close>

definition complex_keywords :: "string list" where
  "complex_keywords =
     [''analyze in detail'', ''complex analysis'', ''detailed explanation'',
      ''comprehensive'', ''research paper'', ''creative writing'', ''translate entire'']"

definition keyword_matches :: "string \<Rightarrow> nat" where
  "keyword_matches prompt =
     (let prompt_lower = lower prompt
      in length (filter (\<lambda>keyword. contains keyword prompt_lower) complex_keywords))"

definition complexity_score :: "string \<Rightarrow> nat" where
  "complexity_score prompt =
     (if length prompt > 500 then keyword_matches prompt + 1 else keyword_matches prompt)"

definition normalized_score :: "string \<Rightarrow> real" where
  "normalized_score prompt = min (real (complexity_score prompt) / 5) 1"

definition should_use_cloud :: "AIManager \<Rightarrow> string \<Rightarrow> bool" where
  "should_use_cloud self prompt = (normalized_score prompt \<ge> decision_threshold self)"

text \<open>
  The calls made on the two backends are recorded in order, next to the result, so that
  claims about which backend is tried, and whether any is, can be stated.
\<close>

datatype backend_kind = Local | Cloud

datatype backend_call =
  IsAvailable backend_kind
| Generate backend_kind string "string option"
| Chat backend_kind "message list"

fun is_available :: "AIManager \<Rightarrow> backend_kind \<Rightarrow> bool" where
  "is_available self Local = local_is_available (local_llm self)"
| "is_available self Cloud = cloud_is_available (cloud_llm self)"

fun backend_generate :: "AIManager \<Rightarrow> backend_kind \<Rightarrow> string \<Rightarrow> string option \<Rightarrow> string option" where
  "backend_generate self Local prompt system = local_generate (local_llm self) prompt system"
| "backend_generate self Cloud prompt system = cloud_generate (cloud_llm self) prompt system"

fun backend_chat :: "AIManager \<Rightarrow> backend_kind \<Rightarrow> message list \<Rightarrow> string option" where
  "backend_chat self Local messages = local_chat (local_llm self) messages"
| "backend_chat self Cloud messages = cloud_chat (cloud_llm self) messages"

text \<open>
  The block that the hybrid branches repeat for one backend:
  \<^verbatim>\<open>if b.is_available(): response = b.generate(prompt, system); if response: return response\<close>.
  \<open>Some r\<close>: the method returns \<open>r\<close>; \<open>None\<close>: control falls through to what follows.
\<close>

definition attempt_generate ::
  "AIManager \<Rightarrow> backend_kind \<Rightarrow> string \<Rightarrow> string option \<Rightarrow> string option \<times> backend_call list" where
  "attempt_generate self b prompt system =
     (if is_available self b
      then (let response = backend_generate self b prompt system
            in (if truthy response then response else None,
                [IsAvailable b, Generate b prompt system]))
      else (None, [IsAvailable b]))"

definition attempt_chat ::
  "AIManager \<Rightarrow> backend_kind \<Rightarrow> message list \<Rightarrow> string option \<times> backend_call list" where
  "attempt_chat self b messages =
     (if is_available self b
      then (let response = backend_chat self b messages
            in (if truthy response then response else None,
                [IsAvailable b, Chat b messages]))
      else (None, [IsAvailable b]))"

text \<open>
  Two such blocks in a row, then the final \<open>return\<close> of the method: the second block
  runs only when the first fell through.
\<close>

definition first_then ::
  "string option \<times> backend_call list \<Rightarrow> string option \<times> backend_call list \<Rightarrow>
   string \<times> backend_call list" where
  "first_then a1 a2 =
     (case a1 of
        (Some r, calls1) \<Rightarrow> (r, calls1)
      | (None, calls1) \<Rightarrow>
          (case a2 of
             (Some r, calls2) \<Rightarrow> (r, calls1 @ calls2)
           | (None, calls2) \<Rightarrow> (unable_to_process, calls1 @ calls2)))"

text \<open>\<open>generate\<close>: the reply and the backend calls made.\<close>

definition resolve_system :: "AIManager \<Rightarrow> environ \<Rightarrow> string option \<Rightarrow> string option" where
  "resolve_system self env system =
     (case system of None \<Rightarrow> build_system_prompt self env | Some s \<Rightarrow> Some s)"

definition generate ::
  "AIManager \<Rightarrow> environ \<Rightarrow> string \<Rightarrow> string option \<Rightarrow> bool \<Rightarrow> string \<times> backend_call list" where
  "generate self env prompt system0 force_cloud =
     (let system = resolve_system self env system0
      in if mode self = ''local''
         then (py_or (local_generate (local_llm self) prompt system) trouble_processing,
               [Generate Local prompt system])
         else if mode self = ''cloud''
         then (py_or (cloud_generate (cloud_llm self) prompt system) trouble_connecting,
               [Generate Cloud prompt system])
         else if mode self = ''hybrid''
         then (if force_cloud \<or> should_use_cloud self prompt
               then first_then (attempt_generate self Cloud prompt system)
                               (attempt_generate self Local prompt system)
               else first_then (attempt_generate self Local prompt system)
                               (attempt_generate self Cloud prompt system))
         else (unable_to_process, []))"

text \<open>
  \<open>chat\<close>. The system message is put in front when personal injection is on, no message
  has the role \<open>system\<close> and a system prompt can be built. In hybrid mode
  \<open>messages[-1]['content']\<close> raises \<open>KeyError\<close> when the last message has no content.
\<close>

definition prepare_messages :: "AIManager \<Rightarrow> environ \<Rightarrow> message list \<Rightarrow> message list" where
  "prepare_messages self env messages =
     (if personal_injection_enabled self
      then (let has_system = list_ex (\<lambda>msg. map_of msg ''role'' = Some ''system'') messages
            in if \<not> has_system
               then (case build_system_prompt self env of
                       None \<Rightarrow> messages
                     | Some system_prompt \<Rightarrow>
                         if system_prompt \<noteq> []
                         then [(''role'', ''system''), (''content'', system_prompt)] # messages
                         else messages)
               else messages)
      else messages)"

definition last_content :: "message list \<Rightarrow> py_error + string" where
  "last_content messages =
     (if messages \<noteq> []
      then (case map_of (last messages) ''content'' of
              None \<Rightarrow> Inl (KeyError ''content'')
            | Some c \<Rightarrow> Inr c)
      else Inr [])"

definition chat ::
  "AIManager \<Rightarrow> environ \<Rightarrow> message list \<Rightarrow> bool \<Rightarrow> (py_error + string) \<times> backend_call list" where
  "chat self env messages0 force_cloud =
     (let messages = prepare_messages self env messages0
      in if mode self = ''local''
         then (Inr (py_or (local_chat (local_llm self) messages) trouble_processing),
               [Chat Local messages])
         else if mode self = ''cloud''
         then (Inr (py_or (cloud_chat (cloud_llm self) messages) trouble_connecting),
               [Chat Cloud messages])
         else if mode self = ''hybrid''
         then (case last_content messages of
                 Inl e \<Rightarrow> (Inl e, [])
               | Inr last_message \<Rightarrow>
                   (let (r, calls) =
                          (if force_cloud \<or> should_use_cloud self last_message
                           then first_then (attempt_chat self Cloud messages)
                                           (attempt_chat self Local messages)
                           else first_then (attempt_chat self Local messages)
                                           (attempt_chat self Cloud messages))
                    in (Inr r, calls)))
         else (Inr unable_to_process, []))"


section \<open>Concrete inputs\<close>

text \<open>A hit with the given text.\<close>

definition hit_of :: "string \<Rightarrow> search_hit" where
  "hit_of t = \<lparr>document = t, distance = 0, hit_id = []\<rparr>"

text \<open>Three ranked hits of 1500, 600 and 10 characters; two hits of 1000 characters each.\<close>

definition docs3 :: "search_hit list" where
  "docs3 = [hit_of (replicate 1500 (CHR ''a'')), hit_of (replicate 600 (CHR ''b'')),
            hit_of (replicate 10 (CHR ''c''))]"

definition docs2 :: "search_hit list" where
  "docs2 = [hit_of (replicate 1000 (CHR ''a'')), hit_of (replicate 1000 (CHR ''b''))]"

text \<open>
  Prompts: 550 characters with exactly three of the keywords, 568 characters with at
  least four of them, and a short one with exactly one.
\<close>

definition prompt3 :: string where
  "prompt3 = ''A Comprehensive research paper on creative writing'' @ replicate 500 (CHR ''.'')"

definition prompt4 :: string where
  "prompt4 =
     ''Complex analysis: a comprehensive research paper on creative writing''
     @ replicate 500 (CHR ''.'')"


text \<open>Backends: a local server that is down or up, a cloud backend that is disabled or up.\<close>

definition local_down :: LocalLLM where
  "local_down = \<lparr>local_enabled = True, tags_ok = False,
                  post_generate = (\<lambda>prompt system. None), post_chat = (\<lambda>messages. None)\<rparr>"

definition local_up :: LocalLLM where
  "local_up = \<lparr>local_enabled = True, tags_ok = True,
                post_generate = (\<lambda>prompt system. Some ''local reply''),
                post_chat = (\<lambda>messages. Some ''local reply'')\<rparr>"

definition cloud_off :: CloudLLM where
  "cloud_off = \<lparr>cloud_enabled = False, has_client = False, provider = ''openai'',
                 openai_generate = (\<lambda>prompt system. None),
                 anthropic_generate = (\<lambda>prompt system. None),
                 openai_chat = (\<lambda>messages. None), anthropic_chat = (\<lambda>messages. None)\<rparr>"

definition cloud_up :: CloudLLM where
  "cloud_up = \<lparr>cloud_enabled = True, has_client = True, provider = ''openai'',
                openai_generate = (\<lambda>prompt system. Some ''cloud reply''),
                anthropic_generate = (\<lambda>prompt system. None),
                openai_chat = (\<lambda>messages. Some ''cloud reply''),
                anthropic_chat = (\<lambda>messages. None)\<rparr>"

text \<open>A manager with personal injection off (the default).\<close>

definition manager :: "string \<Rightarrow> real \<Rightarrow> LocalLLM \<Rightarrow> CloudLLM \<Rightarrow> AIManager" where
  "manager m threshold l c =
     \<lparr>mode = m, decision_threshold = threshold, personal_injection_enabled = False,
      personal_env_keys = [], personal_directive = [], local_llm = l, cloud_llm = c\<rparr>"




text \<open>Stores and calls of \<open>add_conversation\<close> in which the directory can be created.\<close>

definition store_with :: "int \<Rightarrow> conversation list \<Rightarrow> memory" where
  "store_with cap turns = \<lparr>max_history = cap, conversations = turns, user_preferences = Map.empty\<rparr>"

definition call_of :: "string \<Rightarrow> append_call" where
  "call_of u = \<lparr>call_makedirs_ok = True, call_now = ''2024-01-01T00:00:00'', call_user = u,
                call_assistant = ''ok'', call_metadata = None\<rparr>"

definition calls5 :: "append_call list" where
  "calls5 = [call_of ''1'', call_of ''2'', call_of ''3'', call_of ''4'', call_of ''5'']"

section \<open>Properties of context assembly\<close>

lemma build_context_loop_acc:
  "build_context_loop m docs acc tot = acc @ build_context_loop m docs [] tot"
proof (induction docs arbitrary: acc tot)
  case Nil show ?case by simp
next
  case (Cons d ds)
  show ?case
    using Cons.IH [of "acc @ [document d]"] Cons.IH [of "[document d]"]
    by (simp add: Let_def)
qed

lemma build_context_loop_prefix:
  "\<exists>k\<le>length docs.
     build_context_loop m docs [] tot = map document (take k docs) \<and>
     (\<forall>j<k. tot + sum_list (map (length \<circ> document) (take j docs)) + length (document (docs ! j)) \<le> m) \<and>
     (k < length docs \<longrightarrow> tot + sum_list (map (length \<circ> document) (take k docs)) + length (document (docs ! k)) > m)"
proof (induction docs arbitrary: tot)
  case Nil show ?case by simp
next
  case (Cons d ds)
  show ?case
  proof (cases "tot + length (document d) > m")
    case True
    then show ?thesis by (intro exI [of _ 0]) simp
  next
    case False
    from Cons.IH [of "tot + length (document d)"] obtain k where k: "k \<le> length ds"
      "build_context_loop m ds [] (tot + length (document d)) = map document (take k ds)"
      "\<forall>j<k. tot + length (document d) + sum_list (map (length \<circ> document) (take j ds)) + length (document (ds ! j)) \<le> m"
      "k < length ds \<longrightarrow> tot + length (document d) + sum_list (map (length \<circ> document) (take k ds)) + length (document (ds ! k)) > m"
      by blast
    have a: "build_context_loop m (d # ds) [] tot = map document (take (Suc k) (d # ds))"
      using False k(2) build_context_loop_acc [of m ds "[document d]" "tot + length (document d)"]
      by (simp add: Let_def)
    have b: "\<forall>j<Suc k. tot + sum_list (map (length \<circ> document) (take j (d # ds))) + length (document ((d # ds) ! j)) \<le> m"
    proof (intro allI impI)
      fix j assume "j < Suc k"
      show "tot + sum_list (map (length \<circ> document) (take j (d # ds))) + length (document ((d # ds) ! j)) \<le> m"
      proof (cases j)
        case 0 then show ?thesis using False by simp
      next
        case (Suc i)
        then have "i < k" using \<open>j < Suc k\<close> by simp
        with k(3) Suc show ?thesis by (simp add: add.assoc)
      qed
    qed
    have c: "Suc k < length (d # ds) \<longrightarrow> tot + sum_list (map (length \<circ> document) (take (Suc k) (d # ds))) + length (document ((d # ds) ! Suc k)) > m"
      using k(4) by (simp add: add.assoc)
    have d: "Suc k \<le> length (d # ds)" using k(1) by simp
    show ?thesis using a b c d by blast
  qed
qed

lemma length_join:
  "length (join sep ps) = sum_list (map length ps) + length sep * (length ps - 1)"
  by (induction sep ps rule: join.induct) simp_all

lemma context_parts_prefix:
  "\<exists>k\<le>length docs.
     context_parts m docs = map document (take k docs) \<and>
     (\<forall>j<k. sum_list (map (length \<circ> document) (take j docs)) + length (document (docs ! j)) \<le> m) \<and>
     (k < length docs \<longrightarrow> sum_list (map (length \<circ> document) (take k docs)) + length (document (docs ! k)) > m)"
  using build_context_loop_prefix [of docs m 0] by (simp add: context_parts_def)

lemma sum_parts_le:
  "sum_list (map length (context_parts m docs)) \<le> m"
proof -
  obtain k where k: "k \<le> length docs" "context_parts m docs = map document (take k docs)"
    "\<forall>j<k. sum_list (map (length \<circ> document) (take j docs)) + length (document (docs ! j)) \<le> m"
    using context_parts_prefix [of docs m] by blast
  show ?thesis
  proof (cases k)
    case 0 then show ?thesis using k(2) by simp
  next
    case (Suc i)
    then have "i < length docs" using k(1) by simp
    then have "take (Suc i) docs = take i docs @ [docs ! i]" by (rule take_Suc_conv_app_nth)
    moreover have "sum_list (map (length \<circ> document) (take i docs)) + length (document (docs ! i)) \<le> m"
      using k(3) Suc by simp
    ultimately show ?thesis using k(2) Suc by (simp add: comp_def)
  qed
qed

text \<open>
  Claim C7. Context assembly takes the hits in rank order and stops at the first hit
  whose text would push the running total over the budget: the parts kept are the texts
  of the first \<open>k\<close> hits, every one of them fitted when its turn came, and when a hit is
  left (\<open>k < length docs\<close>), hit \<open>k\<close> is the one that did not fit; no later hit is
  looked at, however short.
\<close>

theorem build_context_stops_at_first_overflow:
  "let k = length (context_parts m docs) in
     k \<le> length docs \<and>
     context_parts m docs = map document (take k docs) \<and>
     build_context m docs = join blank_line (map document (take k docs)) \<and>
     (\<forall>j<k. sum_list (map (length \<circ> document) (take j docs)) + length (document (docs ! j)) \<le> m) \<and>
     (k < length docs \<longrightarrow>
        sum_list (map (length \<circ> document) (take k docs)) + length (document (docs ! k)) > m)"
proof -
  obtain k where k: "k \<le> length docs" "context_parts m docs = map document (take k docs)"
    "\<forall>j<k. sum_list (map (length \<circ> document) (take j docs)) + length (document (docs ! j)) \<le> m"
    "k < length docs \<longrightarrow> sum_list (map (length \<circ> document) (take k docs)) + length (document (docs ! k)) > m"
    using context_parts_prefix [of docs m] by blast
  have "length (context_parts m docs) = k" using k(1,2) by simp
  then show ?thesis using k by (simp add: Let_def build_context_def)
qed

text \<open>
  For hits of 1500, 600 and 10 characters and a budget of 2000 only the first hit is
  returned: 1500 + 600 exceeds 2000, and the hit of 10 characters is never tried.
\<close>

lemma context_parts_docs3: "context_parts 2000 docs3 = [replicate 1500 (CHR ''a'')]"
  by (simp add: context_parts_def docs3_def hit_of_def)

theorem build_context_stops_at_first_overflow_witness:
  "build_context 2000 docs3 = document (docs3 ! 0) \<and>
   length (context_parts 2000 docs3) = 1 \<and>
   map (length \<circ> document) docs3 = [1500, 600, 10] \<and>
   length (document (docs3 ! 0)) + length (document (docs3 ! 1)) > 2000"
  using build_context_stops_at_first_overflow [of 2000 docs3]
  by (simp add: context_parts_docs3 Let_def) (simp add: docs3_def hit_of_def)


lemma build_context_loop_empty_docs:
  "tot \<le> m \<Longrightarrow>
   build_context_loop m (replicate n (hit_of [])) acc tot = acc @ replicate n []"
proof (induction n arbitrary: acc)
  case 0 show ?case by simp
next
  case (Suc n)
  have "replicate n [] @ [[]] = [] # replicate n ([] :: string)"
    by (simp add: replicate_append_same)
  then show ?case using Suc by (simp add: hit_of_def Let_def)
qed

lemma context_parts_tight:
  "context_parts m (hit_of (replicate m c) # replicate n (hit_of [])) =
   replicate m c # replicate n []"
  using build_context_loop_empty_docs [of m m n "[replicate m c]"]
  by (simp add: context_parts_def hit_of_def Let_def)

lemma build_context_tight:
  "1 \<le> k \<Longrightarrow>
   \<exists>ds. length (context_parts m ds) = k \<and> length (build_context m ds) = m + 2 * (k - 1)"
proof -
  assume "1 \<le> k"
  let ?ds = "hit_of (replicate m (CHR ''a'')) # replicate (k - 1) (hit_of [])"
  have "length (context_parts m ?ds) = k"
    using \<open>1 \<le> k\<close> by (simp add: context_parts_tight)
  moreover have "length (build_context m ?ds) = m + 2 * (k - 1)"
    by (simp add: build_context_def context_parts_tight length_join blank_line_def)
  ultimately show ?thesis by blast
qed

text \<open>
  Claim C9. The budget test counts the texts only. The texts kept never sum to more
  than the budget; the string returned is longer than that sum by the two characters of
  each separator, so it is at most \<open>2 * (k - 1)\<close> characters over the budget when \<open>k\<close>
  texts are kept; and that excess is reached, for every budget and every \<open>k \<ge> 1\<close>.
\<close>

theorem build_context_budget_ignores_separators:
  "sum_list (map length (context_parts m docs)) \<le> m \<and>
   length (build_context m docs) =
     sum_list (map length (context_parts m docs)) + 2 * (length (context_parts m docs) - 1) \<and>
   length (build_context m docs) \<le> m + 2 * (length (context_parts m docs) - 1) \<and>
   (1 \<le> k \<longrightarrow>
      (\<exists>ds. length (context_parts m ds) = k \<and> length (build_context m ds) = m + 2 * (k - 1)))"
proof -
  have a: "sum_list (map length (context_parts m docs)) \<le> m" by (rule sum_parts_le)
  have b: "length (build_context m docs) =
     sum_list (map length (context_parts m docs)) + 2 * (length (context_parts m docs) - 1)"
    by (simp add: build_context_def length_join blank_line_def)
  have c: "length (build_context m docs) \<le> m + 2 * (length (context_parts m docs) - 1)"
    using a b by simp
  show ?thesis using a b c build_context_tight [of k m] by blast
qed

lemma context_parts_docs2:
  "context_parts 2000 docs2 = [replicate 1000 (CHR ''a''), replicate 1000 (CHR ''b'')]"
  by (simp add: context_parts_def docs2_def hit_of_def)

theorem build_context_budget_ignores_separators_witness:
  "sum_list (map length (context_parts 2000 docs2)) = 2000 \<and>
   length (context_parts 2000 docs2) = 2 \<and>
   length (build_context 2000 docs2) = 2002 \<and>
   (1::nat) \<le> 2 \<and>
   (\<exists>ds. length (context_parts 2000 ds) = 2 \<and> length (build_context 2000 ds) = 2000 + 2 * (2 - 1))"
  using build_context_budget_ignores_separators [of 2000 docs2 2]
  by (simp add: context_parts_docs2)

section \<open>Properties of the conversation memory\<close>

lemma slice_from_neg_pos:
  "1 \<le> n \<Longrightarrow> slice_from (- n) xs = drop (length xs - nat n) xs"
proof -
  assume "1 \<le> n"
  then have "nat (int (length xs) - n) = length xs - nat n" by linarith
  with \<open>1 \<le> n\<close> show ?thesis by (simp add: slice_from_def)
qed

lemma add_call_conversations:
  assumes "call_makedirs_ok c" and "1 \<le> max_history self"
  shows "conversations (add_call self c) =
         drop (Suc (length (conversations self)) - nat (max_history self))
              (conversations self @ [turn_of c])"
proof (cases "int (Suc (length (conversations self))) > max_history self")
  case True
  then show ?thesis
    using assms
    by (simp add: add_call_def add_conversation_def save_conversations_def turn_of_def
        slice_from_neg_pos Let_def del: drop_append)
next
  case False
  then have "Suc (length (conversations self)) - nat (max_history self) = 0" by linarith
  then show ?thesis
    using assms False
    by (simp add: add_call_def add_conversation_def save_conversations_def turn_of_def Let_def)
qed

lemma drop_snoc_step:
  "d < length ys \<Longrightarrow> drop (Suc 0) (drop d ys @ [t]) = drop (Suc d) (ys @ [t])"
  by simp

lemma add_call_max_history: "max_history (add_call self c) = max_history self"
  by (simp add: add_call_def add_conversation_def save_conversations_def Let_def)

lemma add_calls_max_history: "max_history (add_calls self cs) = max_history self"
  unfolding add_calls_def by (induction cs arbitrary: self) (simp_all add: add_call_max_history)

lemma add_calls_snoc: "add_calls self (cs @ [c]) = add_call (add_calls self cs) c"
  by (simp add: add_calls_def)

text \<open>
  What the eviction does when it works: the cap is at least 1 and the directory of the
  log file can be created at every call. The log then is the last \<open>cap\<close> turns of
  everything appended so far, in the order of appending.
\<close>

lemma add_calls_conversations:
  assumes "1 \<le> max_history self"
    and "length (conversations self) \<le> nat (max_history self)"
    and "\<forall>c\<in>set cs. call_makedirs_ok c"
  shows "conversations (add_calls self cs) =
         drop (length (conversations self) + length cs - nat (max_history self))
              (conversations self @ map turn_of cs)"
  using assms(3)
proof (induction cs rule: rev_induct)
  case Nil
  then show ?case using assms(2) by (simp add: add_calls_def)
next
  case (snoc c cs)
  let ?xs = "conversations self" and ?cap = "nat (max_history self)"
  let ?all = "?xs @ map turn_of cs"
  let ?d = "length ?xs + length cs - ?cap"
  have IH: "conversations (add_calls self cs) = drop ?d ?all" using snoc by simp
  have ok: "call_makedirs_ok c" using snoc.prems by simp
  have cap: "1 \<le> ?cap" using assms(1) by simp
  have step: "conversations (add_calls self (cs @ [c])) =
        drop (Suc (length (drop ?d ?all)) - ?cap) (drop ?d ?all @ [turn_of c])"
    using add_call_conversations [OF ok, of "add_calls self cs"] assms(1) IH
    by (simp add: add_calls_snoc add_calls_max_history)
  show ?case
  proof (cases "length ?xs + length cs < ?cap")
    case True
    then show ?thesis using step by simp
  next
    case False
    then have len: "length (drop ?d ?all) = ?cap" by simp
    have "?d < length ?all" using False cap by simp
    then have a: "drop (Suc 0) (drop ?d ?all @ [turn_of c]) = drop (Suc ?d) (?all @ [turn_of c])"
      by (rule drop_snoc_step)
    have b: "length ?xs + length (cs @ [c]) - ?cap = Suc ?d" using False by simp
    have c: "Suc (length (drop ?d ?all)) - ?cap = Suc 0" unfolding len by simp
    have e: "?xs @ map turn_of (cs @ [c]) = ?all @ [turn_of c]" by simp
    show ?thesis unfolding step b c e by (rule a)
  qed
qed

lemma add_calls_length_le_cap:
  assumes "1 \<le> max_history self"
    and "length (conversations self) \<le> nat (max_history self)"
    and "\<forall>c\<in>set cs. call_makedirs_ok c"
  shows "length (conversations (add_calls self cs)) \<le> nat (max_history self)"
  using add_calls_conversations [OF assms] by simp

lemma add_calls_cap_plus_five:
  assumes "1 \<le> cap" and "length cs = nat cap + 5" and "\<forall>c\<in>set cs. call_makedirs_ok c"
  shows "conversations (add_calls (store_with cap []) cs) = drop 5 (map turn_of cs)"
    and "length (conversations (add_calls (store_with cap []) cs)) = nat cap"
  using add_calls_conversations [of "store_with cap []" cs] assms
  by (simp_all add: store_with_def)

text \<open>
  Claim C6. With the cap set to 0 the eviction never happens: \<open>conversations[-0:]\<close> is
  the whole list. Five appends to an empty store with cap 0 leave five turns, and the
  log is over its cap from the first append on.
\<close>

theorem add_conversation_cap_zero_keeps_all:
  "max_history (store_with 0 []) = 0 \<and>
   length (conversations (add_call (store_with 0 []) (call_of ''1''))) = 1 \<and>
   conversations (add_calls (store_with 0 []) calls5) = map turn_of calls5 \<and>
   length (conversations (add_calls (store_with 0 []) calls5)) = 5"
  by (simp add: add_calls_def add_call_def add_conversation_def save_conversations_def
      slice_from_def store_with_def calls5_def call_of_def turn_of_def Let_def)

text \<open>For \<open>limit \<ge> 1\<close> the last \<open>min limit (length log)\<close> turns come back, oldest first.\<close>

lemma get_recent_conversations_pos:
  "1 \<le> limit \<Longrightarrow>
   get_recent_conversations self limit =
     drop (length (conversations self) - nat limit) (conversations self) \<and>
   length (get_recent_conversations self limit) = min (nat limit) (length (conversations self))"
  by (simp add: get_recent_conversations_def slice_from_neg_pos)

text \<open>
  Claim C8. \<open>get_recent_conversations(0)\<close> is \<open>conversations[-0:]\<close>, the whole log, not
  the empty sequence: on a log of five turns it returns all five.
\<close>

theorem get_recent_conversations_zero_returns_all:
  "get_recent_conversations (store_with 1000 (map turn_of calls5)) 0 = map turn_of calls5 \<and>
   length (get_recent_conversations (store_with 1000 (map turn_of calls5)) 0) = 5"
  by (simp add: get_recent_conversations_def slice_from_def store_with_def calls5_def)


text \<open>A rounded value of moderate size is the result of the operation: no overflow.\<close>

lemma to_double_small:
  assumes "round_double x = r" and "\<bar>r\<bar> \<le> 2 ^ 10"
  shows "to_double x = Fin r"
proof -
  have "(2::rat) ^ 10 < 2 ^ 1024" by (rule power_strict_increasing) simp_all
  then have "r < 2 ^ 1024" and "- (2 ^ 1024) < r" using assms(2) by linarith+
  then show ?thesis using assms(1) by (simp add: to_double_def Let_def)
qed

text \<open>
  The roundings of the example: the literal \<open>0.1\<close>, then \<open>1 - 0.1\<close>, \<open>175 * 0.9\<close>,
  \<open>200 * 0.1\<close> and the sum, each the double nearest to the exact value.
\<close>

lemma round_tenth: "round_double (1 / 10) = 3602879701896397 / 36028797018963968"
  by code_simp

lemma round_int_1: "round_double (of_int 1) = 1"
  by code_simp

lemma round_int_175: "round_double (of_int 175) = 175"
  by code_simp

lemma round_int_200: "round_double (of_int 200) = 200"
  by code_simp

lemma round_keep_tenth:
  "round_double (1 + - (3602879701896397 / 36028797018963968)) =
   8106479329266893 / 9007199254740992"
  by code_simp

lemma round_old_tenth: "round_double (175 * (8106479329266893 / 9007199254740992)) = 315 / 2"
  by code_simp

lemma round_new_tenth: "round_double (200 * (3602879701896397 / 36028797018963968)) = 20"
  by code_simp

lemma round_sum_tenth: "round_double (315 / 2 + 20) = 355 / 2"
  by code_simp

lemma literal_tenth:
  "float_literal (1 / 10) = PyFloat (Fin (3602879701896397 / 36028797018963968))"
  unfolding float_literal_def by (simp add: to_double_small [OF round_tenth])

lemma to_float_float: "to_float (PyFloat f) = Inr f"
  by (simp add: to_float_def)

lemma to_float_1: "to_float (PyInt 1) = Inr (Fin 1)"
proof -
  have "to_double (of_int 1) = Fin 1"
    by (rule to_double_small [OF round_int_1]) simp
  then show ?thesis by (simp only: to_float_def pynum.case pyfloat.case)
qed

lemma to_float_175: "to_float (PyInt 175) = Inr (Fin 175)"
proof -
  have "to_double (of_int 175) = Fin 175"
    by (rule to_double_small [OF round_int_175]) simp
  then show ?thesis by (simp only: to_float_def pynum.case pyfloat.case)
qed

lemma to_float_200: "to_float (PyInt 200) = Inr (Fin 200)"
proof -
  have "to_double (of_int 200) = Fin 200"
    by (rule to_double_small [OF round_int_200]) simp
  then show ?thesis by (simp only: to_float_def pynum.case pyfloat.case)
qed

lemma keep_tenth:
  "py_sub (PyInt 1) (float_literal (1 / 10)) =
   Inr (PyFloat (Fin (8106479329266893 / 9007199254740992)))"
proof -
  have "to_double (1 + - (3602879701896397 / 36028797018963968)) =
        Fin (8106479329266893 / 9007199254740992)"
    by (rule to_double_small [OF round_keep_tenth]) simp
  then show ?thesis
    by (simp only: literal_tenth py_sub_def py_arith_def to_float_1 to_float_float fsub_def
        fneg.simps fadd.simps prod.case pynum.case sum.case)
qed

lemma old_part_tenth:
  "py_mul (PyInt 175) (PyFloat (Fin (8106479329266893 / 9007199254740992))) =
   Inr (PyFloat (Fin (315 / 2)))"
proof -
  have "to_double (175 * (8106479329266893 / 9007199254740992)) = Fin (315 / 2)"
    by (rule to_double_small [OF round_old_tenth]) simp
  then show ?thesis
    by (simp only: py_mul_def py_arith_def to_float_175 to_float_float fmul.simps
        prod.case pynum.case sum.case)
qed

lemma new_part_tenth:
  "py_mul (PyInt 200) (float_literal (1 / 10)) = Inr (PyFloat (Fin 20))"
proof -
  have "to_double (200 * (3602879701896397 / 36028797018963968)) = Fin 20"
    by (rule to_double_small [OF round_new_tenth]) simp
  then show ?thesis
    by (simp only: literal_tenth py_mul_def py_arith_def to_float_200 to_float_float fmul.simps
        prod.case pynum.case sum.case)
qed

lemma updated_tenth:
  "py_add (PyFloat (Fin (315 / 2))) (PyFloat (Fin 20)) = Inr (PyFloat (Fin (355 / 2)))"
proof -
  have "to_double (315 / 2 + 20) = Fin (355 / 2)"
    by (rule to_double_small [OF round_sum_tenth]) simp
  then show ?thesis
    by (simp only: py_add_def py_arith_def to_float_float fadd.simps
        prod.case pynum.case sum.case)
qed

lemma int_updated_tenth: "py_int (PyFloat (Fin (355 / 2))) = Inr 177"
  by code_simp

text \<open>
  Claim C4 (as the code has it). When the metadata carries \<open>preferred_voice_rate\<close>, the
  code computes \<open>current * (1 - rate) + new_rate * rate\<close> with Python's operations, where
  \<open>current\<close> is the stored value of \<open>voice_rate\<close>, or the default 175 when the key is
  absent, and stores \<open>int\<close> of the result: the smoothed value truncated toward zero.
  Nothing else in the store changes.
\<close>

theorem update_preferences_stores_truncated:
  assumes "map_of md ''preferred_voice_rate'' = Some new_rate"
    and "current = (case user_preferences mem ''voice_rate'' of None \<Rightarrow> PyInt 175 | Some v \<Rightarrow> v)"
    and "py_sub (PyInt 1) rate = Inr keep"
    and "py_mul current keep = Inr old_part"
    and "py_mul new_rate rate = Inr new_part"
    and "py_add old_part new_part = Inr updated"
    and "py_int updated = Inr i"
  shows "update_preferences rate mem user_input (Some md) =
         Inr (mem\<lparr>user_preferences := (user_preferences mem)(''voice_rate'' \<mapsto> PyInt i)\<rparr>)"
proof -
  have "md \<noteq> []" using assms(1) by auto
  moreover have "get_preference mem ''voice_rate'' (PyInt 175) = current"
    using assms(2) by (simp add: get_preference_def)
  ultimately show ?thesis
    using assms(1,3-7) by (simp add: update_preferences_def set_preference_def Let_def)
qed

theorem update_preferences_stores_truncated_witness:
  "map_of [(''preferred_voice_rate'', PyInt 200)] ''preferred_voice_rate'' = Some (PyInt 200) \<and>
   user_preferences (store_with 1000 []) ''voice_rate'' = None \<and>
   py_sub (PyInt 1) (float_literal (1 / 10)) =
     Inr (PyFloat (Fin (8106479329266893 / 9007199254740992))) \<and>
   py_mul (PyInt 175) (PyFloat (Fin (8106479329266893 / 9007199254740992))) =
     Inr (PyFloat (Fin (315 / 2))) \<and>
   py_mul (PyInt 200) (float_literal (1 / 10)) = Inr (PyFloat (Fin 20)) \<and>
   py_add (PyFloat (Fin (315 / 2))) (PyFloat (Fin 20)) = Inr (PyFloat (Fin (355 / 2))) \<and>
   py_int (PyFloat (Fin (355 / 2))) = Inr 177 \<and>
   update_preferences (float_literal (1 / 10)) (store_with 1000 []) ''hello''
     (Some [(''preferred_voice_rate'', PyInt 200)]) =
     Inr ((store_with 1000 [])\<lparr>user_preferences := [''voice_rate'' \<mapsto> PyInt 177]\<rparr>)"
proof -
  have p: "user_preferences (store_with 1000 []) ''voice_rate'' = None"
    by (simp add: store_with_def)
  have c: "PyInt 175 =
      (case user_preferences (store_with 1000 []) ''voice_rate'' of
         None \<Rightarrow> PyInt 175 | Some v \<Rightarrow> v)"
    by (simp add: p)
  have m: "map_of [(''preferred_voice_rate'', PyInt 200)] ''preferred_voice_rate'' =
           Some (PyInt 200)"
    by simp
  have "update_preferences (float_literal (1 / 10)) (store_with 1000 []) ''hello''
          (Some [(''preferred_voice_rate'', PyInt 200)]) =
        Inr ((store_with 1000 [])\<lparr>user_preferences :=
               (user_preferences (store_with 1000 []))(''voice_rate'' \<mapsto> PyInt 177)\<rparr>)"
    by (rule update_preferences_stores_truncated
          [OF m c keep_tenth old_part_tenth new_part_tenth updated_tenth int_updated_tenth])
  moreover have "user_preferences (store_with 1000 []) = Map.empty"
    by (simp add: store_with_def)
  ultimately show ?thesis
    using p m keep_tenth old_part_tenth new_part_tenth updated_tenth int_updated_tenth
    by simp
qed

text \<open>
  From the default 175, with the new value 200 and rate 0.1, the smoothed value is the
  float 177.5 and the value stored is the integer 177.
\<close>

theorem update_preferences_counterexample:
  "update_preferences (float_literal (1 / 10)) (store_with 1000 []) ''hello''
     (Some [(''preferred_voice_rate'', PyInt 200)]) =
     Inr (set_preference (store_with 1000 []) ''voice_rate'' (PyInt 177)) \<and>
   user_preferences (set_preference (store_with 1000 []) ''voice_rate'' (PyInt 177))
     ''voice_rate'' \<noteq> Some (PyFloat (Fin (355 / 2)))"
proof -
  have "get_preference (store_with 1000 []) ''voice_rate'' (PyInt 175) = PyInt 175"
    by (simp add: get_preference_def store_with_def)
  then show ?thesis
    by (simp add: update_preferences_def Let_def keep_tenth old_part_tenth new_part_tenth
        updated_tenth int_updated_tenth set_preference_def)
qed


text \<open>
  The rounding of the doubles shows in what is stored. With rate 0.9 and the new value 5,
  from the default 175: \<open>1 - 0.9\<close> is a little below 0.1, the sum is a little below 22,
  and 21 is stored, where exact arithmetic would give 22.
\<close>

lemma update_preferences_rounds_as_doubles:
  "update_preferences (float_literal (9 / 10)) (store_with 1000 []) ''hello''
     (Some [(''preferred_voice_rate'', PyInt 5)]) =
   Inr (set_preference (store_with 1000 []) ''voice_rate'' (PyInt 21))"
proof -
  have r1: "round_double (9 / 10) = 8106479329266893 / 9007199254740992" by code_simp
  have r2: "round_double (1 + - (8106479329266893 / 9007199254740992)) = 900719925474099 / 9007199254740992" by code_simp
  have r3: "round_double (175 * (900719925474099 / 9007199254740992)) = 4925812092436479 / 281474976710656" by code_simp
  have r4: "round_double (of_int 5) = 5" by code_simp
  have r5: "round_double (5 * (8106479329266893 / 9007199254740992)) = 9 / 2" by code_simp
  have r6: "round_double (4925812092436479 / 281474976710656 + 9 / 2) = 6192449487634431 / 281474976710656" by code_simp
  have lit: "float_literal (9 / 10) = PyFloat (Fin (8106479329266893 / 9007199254740992))"
    unfolding float_literal_def by (simp add: to_double_small [OF r1])
  have five: "to_float (PyInt 5) = Inr (Fin 5)"
  proof -
    have "to_double (of_int 5) = Fin 5" by (rule to_double_small [OF r4]) simp
    then show ?thesis by (simp only: to_float_def pynum.case pyfloat.case)
  qed
  have keep: "py_sub (PyInt 1) (float_literal (9 / 10)) = Inr (PyFloat (Fin (900719925474099 / 9007199254740992)))"
  proof -
    have "to_double (1 + - (8106479329266893 / 9007199254740992)) = Fin (900719925474099 / 9007199254740992)" by (rule to_double_small [OF r2]) simp
    then show ?thesis
      by (simp only: lit py_sub_def py_arith_def to_float_1 to_float_float fsub_def
          fneg.simps fadd.simps prod.case pynum.case sum.case)
  qed
  have old_part: "py_mul (PyInt 175) (PyFloat (Fin (900719925474099 / 9007199254740992))) = Inr (PyFloat (Fin (4925812092436479 / 281474976710656)))"
  proof -
    have "to_double (175 * (900719925474099 / 9007199254740992)) = Fin (4925812092436479 / 281474976710656)" by (rule to_double_small [OF r3]) simp
    then show ?thesis
      by (simp only: py_mul_def py_arith_def to_float_175 to_float_float fmul.simps
          prod.case pynum.case sum.case)
  qed
  have new_part: "py_mul (PyInt 5) (float_literal (9 / 10)) = Inr (PyFloat (Fin (9 / 2)))"
  proof -
    have "to_double (5 * (8106479329266893 / 9007199254740992)) = Fin (9 / 2)" by (rule to_double_small [OF r5]) simp
    then show ?thesis
      by (simp only: lit py_mul_def py_arith_def five to_float_float fmul.simps
          prod.case pynum.case sum.case)
  qed
  have updated: "py_add (PyFloat (Fin (4925812092436479 / 281474976710656))) (PyFloat (Fin (9 / 2))) = Inr (PyFloat (Fin (6192449487634431 / 281474976710656)))"
  proof -
    have "to_double (4925812092436479 / 281474976710656 + 9 / 2) = Fin (6192449487634431 / 281474976710656)" by (rule to_double_small [OF r6]) simp
    then show ?thesis
      by (simp only: py_add_def py_arith_def to_float_float fadd.simps
          prod.case pynum.case sum.case)
  qed
  have truncated: "py_int (PyFloat (Fin (6192449487634431 / 281474976710656))) = Inr 21" by code_simp
  have "get_preference (store_with 1000 []) ''voice_rate'' (PyInt 175) = PyInt 175"
    by (simp add: get_preference_def store_with_def)
  then show ?thesis
    by (simp add: update_preferences_def Let_def keep old_part new_part updated truncated)
qed

section \<open>Properties of the orchestrator\<close>

text \<open>\<open>contains\<close> is the substring relation.\<close>

lemma startswith_iff: "startswith s k = (\<exists>r. s = k @ r)"
  by (induction s k rule: startswith.induct) auto

lemma contains_iff: "contains k s = (\<exists>p r. s = p @ k @ r)"
proof (induction s)
  case Nil then show ?case by simp
next
  case (Cons c cs)
  show ?case
  proof
    assume "contains k (c # cs)"
    then consider "startswith (c # cs) k" | "contains k cs" by auto
    then show "\<exists>p r. c # cs = p @ k @ r"
    proof cases
      case 1
      then obtain r where "c # cs = k @ r" by (auto simp: startswith_iff)
      then have "c # cs = [] @ k @ r" by simp
      then show ?thesis by blast
    next
      case 2
      then obtain p r where "cs = p @ k @ r" using Cons.IH by auto
      then have "c # cs = (c # p) @ k @ r" by simp
      then show ?thesis by blast
    qed
  next
    assume "\<exists>p r. c # cs = p @ k @ r"
    then obtain p r where pr: "c # cs = p @ k @ r" by blast
    show "contains k (c # cs)"
    proof (cases p)
      case Nil
      then have "startswith (c # cs) k" using pr by (auto simp: startswith_iff)
      then show ?thesis by simp
    next
      case (Cons a p')
      then have "cs = p' @ k @ r" using pr by simp
      then have "contains k cs" using Cons.IH by blast
      then show ?thesis by simp
    qed
  qed
qed

lemma contains_appendI: "contains k xs \<Longrightarrow> contains k (xs @ ys)"
  unfolding contains_iff by (metis append.assoc)

lemma contains_set: "contains k s \<Longrightarrow> set k \<subseteq> set s"
  unfolding contains_iff by auto

lemma lower_append: "lower (a @ b) = lower a @ lower b"
  by (simp add: lower_def)

lemma lower_dots: "lower (replicate n (CHR ''.'')) = replicate n (CHR ''.'')"
  by (simp add: lower_def lower_char_def)

text \<open>The score is one of 0, 0.2, 0.4, 0.6, 0.8, 1: it lies in \<open>[0, 1]\<close> and is never 0.5.\<close>

lemma normalized_score_range: "0 \<le> normalized_score prompt \<and> normalized_score prompt \<le> 1"
  by (simp add: normalized_score_def)

lemma normalized_score_not_half: "normalized_score prompt \<noteq> 1 / 2"
proof
  assume a: "normalized_score prompt = 1 / 2"
  then have "real (complexity_score prompt) / 5 = 1 / 2"
    by (simp add: normalized_score_def min_def split: if_splits)
  then have "real (2 * complexity_score prompt) = real 5" by simp
  then have "2 * complexity_score prompt = 5" by (simp only: of_nat_eq_iff)
  then show False by presburger
qed

text \<open>The prompt of 550 characters has exactly three of the keywords.\<close>

lemma length_prompt3: "length prompt3 = 550"
  by (simp add: prompt3_def)

lemma lower_prompt3:
  "lower prompt3 =
   ''a comprehensive research paper on creative writing'' @ replicate 500 (CHR ''.'')"
proof -
  have head: "lower ''A Comprehensive research paper on creative writing'' =
        ''a comprehensive research paper on creative writing''"
    by code_simp
  show ?thesis unfolding prompt3_def lower_append lower_dots head by (rule refl)
qed

lemma prompt3_absent: "CHR ''l'' \<in> set k \<Longrightarrow> \<not> contains k (lower prompt3)"
proof
  assume a: "CHR ''l'' \<in> set k" and b: "contains k (lower prompt3)"
  from b have "set k \<subseteq> set (lower prompt3)" by (rule contains_set)
  with a have "CHR ''l'' \<in> set (lower prompt3)" by blast
  then show False unfolding lower_prompt3 by simp
qed

lemma prompt3_present:
  "contains ''comprehensive'' (lower prompt3)"
  "contains ''research paper'' (lower prompt3)"
  "contains ''creative writing'' (lower prompt3)"
  unfolding lower_prompt3 by (rule contains_appendI, code_simp)+

lemma keyword_matches_prompt3: "keyword_matches prompt3 = 3"
  by (simp add: keyword_matches_def complex_keywords_def prompt3_present prompt3_absent Let_def)

text \<open>The prompt of 568 characters has at least four of them.\<close>

lemma length_prompt4: "length prompt4 = 568"
  by (simp add: prompt4_def)

lemma lower_prompt4:
  "lower prompt4 =
   ''complex analysis: a comprehensive research paper on creative writing''
   @ replicate 500 (CHR ''.'')"
proof -
  have head: "lower ''Complex analysis: a comprehensive research paper on creative writing'' =
        ''complex analysis: a comprehensive research paper on creative writing''"
    by code_simp
  show ?thesis unfolding prompt4_def lower_append lower_dots head by (rule refl)
qed

lemma prompt4_present:
  "contains ''complex analysis'' (lower prompt4)"
  "contains ''comprehensive'' (lower prompt4)"
  "contains ''research paper'' (lower prompt4)"
  "contains ''creative writing'' (lower prompt4)"
  unfolding lower_prompt4 by (rule contains_appendI, code_simp)+

lemma keyword_matches_prompt4: "4 \<le> keyword_matches prompt4"
  by (simp add: keyword_matches_def complex_keywords_def prompt4_present Let_def)




text \<open>
  Claim C2. In hybrid mode, when each backend either is not available or gives no
  non-empty reply to the prompt, \<open>generate\<close> returns the fixed string. The model of
  \<open>generate\<close> is a total function with no error value: the method has no raising
  statement, and both backends catch every exception of their own.
\<close>

theorem generate_hybrid_both_unavailable:
  assumes "mode self = ''hybrid''"
    and "\<not> is_available self Cloud \<or>
         \<not> truthy (backend_generate self Cloud prompt (resolve_system self env system))"
    and "\<not> is_available self Local \<or>
         \<not> truthy (backend_generate self Local prompt (resolve_system self env system))"
  shows "fst (generate self env prompt system force_cloud) =
         ''I'm currently unable to process your request.''"
proof -
  have c: "fst (attempt_generate self Cloud prompt (resolve_system self env system)) = None"
    using assms(2) by (auto simp: attempt_generate_def Let_def)
  have l: "fst (attempt_generate self Local prompt (resolve_system self env system)) = None"
    using assms(3) by (auto simp: attempt_generate_def Let_def)
  have "fst (first_then a1 a2) = unable_to_process" if "fst a1 = None" "fst a2 = None"
    for a1 a2 :: "string option \<times> backend_call list"
    using that by (cases a1; cases a2) (simp add: first_then_def)
  then show ?thesis
    using c l assms(1) by (simp add: generate_def Let_def unable_to_process_def)
qed

theorem generate_hybrid_both_unavailable_witness:
  "mode (manager ''hybrid'' (1 / 2) local_down cloud_off) = ''hybrid'' \<and>
   \<not> is_available (manager ''hybrid'' (1 / 2) local_down cloud_off) Cloud \<and>
   \<not> is_available (manager ''hybrid'' (1 / 2) local_down cloud_off) Local \<and>
   fst (generate (manager ''hybrid'' (1 / 2) local_down cloud_off) [] ''hi'' None False) =
     ''I'm currently unable to process your request.''"
  using generate_hybrid_both_unavailable
          [of "manager ''hybrid'' (1 / 2) local_down cloud_off" "''hi''" "[]" None False]
  by (simp add: manager_def local_down_def cloud_off_def local_is_available_def
      cloud_is_available_def)

text \<open>
  Claim C10. A mode other than \<open>local\<close>, \<open>cloud\<close> and \<open>hybrid\<close> makes \<open>generate\<close> and
  \<open>chat\<close> return the fixed string with no call on either backend.
\<close>

theorem unknown_mode_returns_fallback_without_backend:
  assumes "mode self \<notin> {''local'', ''cloud'', ''hybrid''}"
  shows "generate self env prompt system force_cloud =
           (''I'm currently unable to process your request.'', []) \<and>
         chat self env messages force_cloud =
           (Inr ''I'm currently unable to process your request.'', [])"
  using assms by (simp add: generate_def chat_def Let_def unable_to_process_def)

text \<open>The mode comes from \<open>AI_MODE\<close> when the variable is set, whatever it holds.\<close>

lemma init_mode_from_environment:
  "getenv env ''AI_MODE'' = Some m \<Longrightarrow> init_mode env config_mode = m"
  by (simp add: init_mode_def)

theorem unknown_mode_returns_fallback_without_backend_witness:
  "init_mode [(''AI_MODE'', ''turbo'')] (Some ''local'') = ''turbo'' \<and>
   ''turbo'' \<notin> {''local'', ''cloud'', ''hybrid''} \<and>
   generate (manager (init_mode [(''AI_MODE'', ''turbo'')] (Some ''local'')) (1 / 2)
               local_up cloud_up) [] ''hi'' None True =
     (''I'm currently unable to process your request.'', []) \<and>
   chat (manager (init_mode [(''AI_MODE'', ''turbo'')] (Some ''local'')) (1 / 2)
           local_up cloud_up) [] [[(''role'', ''user''), (''content'', ''hi'')]] True =
     (Inr ''I'm currently unable to process your request.'', [])"
proof -
  have i: "init_mode [(''AI_MODE'', ''turbo'')] (Some ''local'') = ''turbo''"
    by (simp add: init_mode_def getenv_def)
  have n: "mode (manager ''turbo'' (1 / 2) local_up cloud_up) \<notin> {''local'', ''cloud'', ''hybrid''}"
    by (simp add: manager_def)
  show ?thesis
    using unknown_mode_returns_fallback_without_backend
            [OF n, of "[]" "''hi''" None True "[[(''role'', ''user''), (''content'', ''hi'')]]"]
    by (simp add: i)
qed

text \<open>
  Claim C1 (as the code has it). For a prompt longer than 500 characters the score is
  \<open>min ((matches + 1) / 5.0) 1.0\<close>: with at least four of the keywords it is exactly 1
  (the count plus one is at least 5), with exactly three it is 4 / 5.0 = 0.8.
\<close>

theorem long_prompt_score_by_keywords:
  assumes "500 < length prompt"
  shows "(4 \<le> keyword_matches prompt \<longrightarrow> normalized_score prompt = 1) \<and>
         (keyword_matches prompt = 3 \<longrightarrow> normalized_score prompt = 4 / 5)"
  using assms by (simp add: normalized_score_def complexity_score_def)

theorem long_prompt_score_by_keywords_witness:
  "500 < length prompt4 \<and> 4 \<le> keyword_matches prompt4 \<and> normalized_score prompt4 = 1 \<and>
   500 < length prompt3 \<and> keyword_matches prompt3 = 3 \<and> normalized_score prompt3 = 4 / 5"
proof -
  have l4: "500 < length prompt4" by (simp add: length_prompt4)
  have l3: "500 < length prompt3" by (simp add: length_prompt3)
  show ?thesis
    using long_prompt_score_by_keywords [OF l4] long_prompt_score_by_keywords [OF l3]
      keyword_matches_prompt4 keyword_matches_prompt3 l4 l3
    by simp
qed

text \<open>
  With three keywords and more than 500 characters the score is (3 + 1) / 5.0 = 0.8,
  below the clamp.
\<close>

theorem three_keywords_and_long_counterexample:
  "3 \<le> keyword_matches prompt3 \<and> 500 < length prompt3 \<and>
   normalized_score prompt3 = 4 / 5 \<and> normalized_score prompt3 \<noteq> 1"
  by (simp add: normalized_score_def complexity_score_def keyword_matches_prompt3
      length_prompt3)


lemma first_then_attempt_chat_hd:
  "hd (snd (first_then (attempt_chat self b messages) a2)) = IsAvailable b"
  by (simp add: first_then_def attempt_chat_def Let_def split: option.splits prod.splits)












end
